theory Spec2Isabelle
  imports Complex_Main "HOL-Library.Sublist" "HOL-Library.Finite_Map"
begin

section \<open>Storefront backend: data model and request handlers\<close>

text \<open>
  The handlers of \<^verbatim>\<open>server-mongodb.js\<close> read and write MongoDB collections through
  Mongoose models. A collection is a list of documents in insertion order; a handler is a
  function from the database (and the request) to the database and the HTTP reply.
  JavaScript numbers are modelled as real numbers (quantities and counters as integers),
  so floating-point rounding and NaN are outside the model.
\<close>

subsection \<open>JavaScript and Mongoose idioms\<close>

text \<open>\<^verbatim>\<open>x || d\<close> on an optional number: \<^verbatim>\<open>undefined\<close>, \<^verbatim>\<open>null\<close> and \<^verbatim>\<open>0\<close> are falsy.\<close>

definition num_or :: "real option \<Rightarrow> real \<Rightarrow> real" where
  "num_or x d = (case x of None \<Rightarrow> d | Some v \<Rightarrow> if v = 0 then d else v)"

text \<open>\<^verbatim>\<open>x || d\<close> on an optional string: \<^verbatim>\<open>undefined\<close> and the empty string are falsy.\<close>

definition str_or :: "string option \<Rightarrow> string \<Rightarrow> string" where
  "str_or x d = (case x of None \<Rightarrow> d | Some v \<Rightarrow> if v = [] then d else v)"

text \<open>\<^verbatim>\<open>Model.findOne(filter)\<close>: the first document that satisfies the filter.\<close>

definition findOne :: "('a \<Rightarrow> bool) \<Rightarrow> 'a list \<Rightarrow> 'a option" where
  "findOne P xs = find P xs"

text \<open>
  Writing back the document that \<^verbatim>\<open>findOne\<close> returned (\<^verbatim>\<open>doc.save()\<close>), and
  \<^verbatim>\<open>Model.findOneAndUpdate(filter, update)\<close>: the first document that satisfies the
  filter is replaced, every other document stays.
\<close>

fun updateFirst :: "('a \<Rightarrow> bool) \<Rightarrow> ('a \<Rightarrow> 'a) \<Rightarrow> 'a list \<Rightarrow> 'a list" where
  "updateFirst P f [] = []"
| "updateFirst P f (x # xs) = (if P x then f x # xs else x # updateFirst P f xs)"

text \<open>\<^verbatim>\<open>Model.findOneAndDelete(filter)\<close>: the first document that satisfies the filter is removed.\<close>

fun deleteFirst :: "('a \<Rightarrow> bool) \<Rightarrow> 'a list \<Rightarrow> 'a list" where
  "deleteFirst P [] = []"
| "deleteFirst P (x # xs) = (if P x then xs else x # deleteFirst P xs)"

text \<open>\<^verbatim>\<open>Model.deleteMany(filter)\<close>: every document that satisfies the filter is removed.\<close>

definition deleteMany :: "('a \<Rightarrow> bool) \<Rightarrow> 'a list \<Rightarrow> 'a list" where
  "deleteMany P xs = filter (\<lambda>x. \<not> P x) xs"

text \<open>\<^verbatim>\<open>String.prototype.toUpperCase\<close>, on ASCII letters.\<close>

definition upper_char :: "char \<Rightarrow> char" where
  "upper_char c =
     (let n = (of_char c :: nat) in if 97 \<le> n \<and> n \<le> 122 then char_of (n - 32) else c)"

definition toUpperCase :: "string \<Rightarrow> string" where
  "toUpperCase s = map upper_char s"

subsection \<open>Coupons\<close>

text \<open>
  Modelled from the spec: the coupon schema of \<^verbatim>\<open>models/Coupon.js\<close>, a file that is not
  among the sources. The fields are those of the specification's data model; timestamps
  are integers.
\<close>

datatype discountType = percentage | fixed

record coupon =
  code :: string
  discountType :: discountType
  discountValue :: real
  minOrderAmount :: real
  maxUsage :: "int option"
  usedCount :: int
  isActive_coupon :: bool
  expiresAt :: "int option"

text \<open>
  Modelled from the spec: the four rejection reasons of the discount calculator, whose
  message texts are in the missing \<^verbatim>\<open>models/Coupon.js\<close>.
\<close>

datatype rejection =
  coupon_inactive | coupon_expired | usage_limit_reached | order_below_minimum

text \<open>
  Modelled from the spec: the computation step of the missing method
  \<^verbatim>\<open>calculateDiscount\<close>, the percentage or the fixed amount, clamped to the subtotal.
\<close>

definition clamped_discount :: "coupon \<Rightarrow> real \<Rightarrow> real" where
  "clamped_discount c subtotal =
     min (case discountType c of
            percentage \<Rightarrow> subtotal * discountValue c / 100
          | fixed \<Rightarrow> discountValue c)
         subtotal"

text \<open>
  Modelled from the spec: the method \<^verbatim>\<open>calculateDiscount\<close> of \<^verbatim>\<open>models/Coupon.js\<close>,
  which is not among the sources; only its callers are. The preconditions are checked in
  the order the specification lists them, then the discount is computed. The result is
  the object the callers read: \<^verbatim>\<open>{ error }\<close> is \<open>Inl\<close>, \<^verbatim>\<open>{ discount }\<close> is \<open>Inr\<close>. The
  current time is an argument.
\<close>

definition calculateDiscount :: "int \<Rightarrow> coupon \<Rightarrow> real \<Rightarrow> rejection + real" where
  "calculateDiscount now c subtotal =
     (if \<not> isActive_coupon c then Inl coupon_inactive
      else if (case expiresAt c of None \<Rightarrow> False | Some t \<Rightarrow> t < now) then Inl coupon_expired
      else if (case maxUsage c of None \<Rightarrow> False | Some m \<Rightarrow> usedCount c \<ge> m)
        then Inl usage_limit_reached
      else if \<not> subtotal \<ge> minOrderAmount c then Inl order_below_minimum
      else Inr (clamped_discount c subtotal))"






text \<open>
  The specification's list of preconditions, each with its reason, and the rule
  ``first failure wins'' over such a list.
\<close>

definition preconditions :: "int \<Rightarrow> coupon \<Rightarrow> real \<Rightarrow> (bool \<times> rejection) list" where
  "preconditions now c subtotal =
     [(isActive_coupon c, coupon_inactive),
      (\<not> (case expiresAt c of None \<Rightarrow> False | Some t \<Rightarrow> t < now), coupon_expired),
      (\<not> (case maxUsage c of None \<Rightarrow> False | Some m \<Rightarrow> usedCount c \<ge> m), usage_limit_reached),
      (subtotal \<ge> minOrderAmount c, order_below_minimum)]"

fun first_failure :: "(bool \<times> rejection) list \<Rightarrow> rejection option" where
  "first_failure [] = None"
| "first_failure ((ok, r) # ps) = (if ok then first_failure ps else Some r)"

text \<open>
  \<^verbatim>\<open>POST /api/coupons/validate\<close>. The lookup already filters on \<^verbatim>\<open>isActive: true\<close>, so
  an inactive coupon is answered like an unknown code, with 404 and the message
  ``invalid coupon''; a rejection by the calculator is answered with 400 and its reason.
  The handler writes nothing.
\<close>

datatype validate_reply =
  Validate_404_invalid_coupon
| Validate_400 rejection
| Validate_200 coupon real

text \<open>The filter \<^verbatim>\<open>{ code: code.toUpperCase(), isActive: true }\<close> of the coupon lookups.\<close>

definition active_with_code :: "string \<Rightarrow> coupon \<Rightarrow> bool" where
  "active_with_code code_in c \<longleftrightarrow> code c = toUpperCase code_in \<and> isActive_coupon c"

definition coupons_validate :: "int \<Rightarrow> coupon list \<Rightarrow> string \<Rightarrow> real \<Rightarrow> validate_reply" where
  "coupons_validate now coupons code_in totalAmount =
     (case findOne (active_with_code code_in) coupons of
        None \<Rightarrow> Validate_404_invalid_coupon
      | Some c \<Rightarrow>
          (case calculateDiscount now c totalAmount of
             Inl e \<Rightarrow> Validate_400 e
           | Inr d \<Rightarrow> Validate_200 c d))"

subsection \<open>Documents\<close>

text \<open>
  A JSON value as the request body and the database hold it. An object is the finite
  mapping from its field names to their values, so two objects are equal when they have
  the same fields with equal values, at every depth and whatever the order in which the
  fields were written.
\<close>

datatype json =
  JNull | JBool bool | JNum real | JStr string | JArr "json list" | JObj "(string, json) fmap"

type_synonym object = "(string, json) fmap"

text \<open>
  Products (\<^verbatim>\<open>models/Product.js\<close>). The fields \<^verbatim>\<open>dynamicOptions\<close>,
  \<^verbatim>\<open>specifications\<close>, \<^verbatim>\<open>featured\<close>, \<^verbatim>\<open>tags\<close> and the SEO fields are left out:
  no handler modelled here reads them.
\<close>

record product =
  id_prod :: int
  name_prod :: string
  description_prod :: string
  price_prod :: real
  originalPrice :: "real option"
  stock :: int
  categoryId :: int
  productType :: string
  mainImage :: string
  detailedImages :: "string list"
  sizeGuideImage :: string
  isActive_prod :: bool

text \<open>
  Categories (\<^verbatim>\<open>models/Category.js\<close>); \<^verbatim>\<open>id\<close> carries a unique index. The fields
  \<^verbatim>\<open>parentId\<close>, \<^verbatim>\<open>order\<close> and the SEO fields are left out.
\<close>

record category =
  id_cat :: int
  name_cat :: string
  description_cat :: string
  image_cat :: string
  isActive_cat :: bool
  createdAt_cat :: int

text \<open>
  Cart lines, with the fields the handlers give to \<^verbatim>\<open>new Cart\<close>. An attachment object
  has an optional text and an optional list of images.
\<close>

record attachments =
  text_att :: "string option"
  images_att :: "string list option"

record cart_item =
  userId_cart :: string
  productId_cart :: int
  productName_cart :: string
  price_cart :: real
  quantity_cart :: int
  image_cart :: string
  selectedOptions_cart :: object
  optionsPricing_cart :: object
  attachments_cart :: attachments

text \<open>Wishlist entries, with the fields the handlers give to \<^verbatim>\<open>new Wishlist\<close>.\<close>

record wishlist_item =
  userId_wish :: string
  productId_wish :: int
  productName_wish :: "string option"
  price_wish :: "real option"
  image_wish :: string

text \<open>
  Order lines and orders, with the fields the handlers give to \<^verbatim>\<open>new Order\<close>.
  \<^verbatim>\<open>POST /api/orders\<close> passes neither \<^verbatim>\<open>subtotal\<close> nor \<^verbatim>\<open>total\<close>, so both are optional.
\<close>

record order_item =
  productId_item :: int
  productName_item :: string
  price_item :: real
  quantity_item :: real
  totalPrice_item :: real
  selectedOptions_item :: object
  optionsPricing_item :: object
  productImage_item :: string
  attachments_item :: attachments

record order =
  customerName :: "string option"
  customerEmail :: "string option"
  customerPhone :: "string option"
  address :: "string option"
  city :: "string option"
  items_order :: "order_item list"
  subtotal_order :: "real option"
  deliveryFee_order :: real
  total_order :: "real option"
  couponCode_order :: string
  couponDiscount_order :: real
  paymentMethod_order :: string
  paymentStatus_order :: "string option"
  notes_order :: string
  userId_order :: "string option"
  isGuestOrder_order :: "bool option"
  paymentId_order :: "string option"

text \<open>The database: one list of documents for each collection.\<close>

record db =
  coupons :: "coupon list"
  products :: "product list"
  categories :: "category list"
  carts :: "cart_item list"
  wishlists :: "wishlist_item list"
  orders :: "order list"

subsection \<open>Creating orders\<close>

text \<open>
  The body of \<^verbatim>\<open>POST /api/orders\<close>. Its line items are stored as they come; they are
  taken to carry a numeric price and quantity.
\<close>

record orders_req =
  customerName_req :: "string option"
  customerEmail_req :: "string option"
  customerPhone_req :: "string option"
  address_req :: "string option"
  city_req :: "string option"
  items_req :: "order_item list"
  couponCode_req :: "string option"
  paymentMethod_req :: "string option"
  notes_req :: "string option"
  deliveryFee_req :: "real option"
  userId_req :: "string option"

datatype order_reply = Created_201 order

text \<open>
  \<^verbatim>\<open>POST /api/orders\<close>. When a coupon code is given, the active coupon with that code is
  looked up; if it is found and the calculator accepts the subtotal of the submitted
  lines, the discount is taken and the coupon is saved with \<^verbatim>\<open>usedCount + 1\<close>. In every
  other case the discount stays \<open>0\<close>. The order is then saved and the user's cart emptied.
\<close>

definition items_subtotal :: "order_item list \<Rightarrow> real" where
  "items_subtotal items =
     foldl (\<lambda>sum item. sum + price_item item * quantity_item item) 0 items"

definition post_orders :: "int \<Rightarrow> orders_req \<Rightarrow> db \<Rightarrow> db \<times> order_reply" where
  "post_orders now req d =
     (let couponCode = couponCode_req req;
          items = items_req req;
          deliveryFee = (case deliveryFee_req req of None \<Rightarrow> 0 | Some f \<Rightarrow> f);
          wanted = active_with_code (str_or couponCode []);
          (couponDiscount, coupons') =
            (if str_or couponCode [] \<noteq> [] then
               (case findOne wanted (coupons d) of
                  None \<Rightarrow> (0, coupons d)
                | Some coupon \<Rightarrow>
                    (let subtotal = items_subtotal items
                     in case calculateDiscount now coupon subtotal of
                          Inl e \<Rightarrow> (0, coupons d)
                        | Inr discount \<Rightarrow>
                            (discount,
                             updateFirst wanted
                               (\<lambda>c. c\<lparr>usedCount := usedCount c + 1\<rparr>) (coupons d))))
             else (0, coupons d));
          order = \<lparr>customerName = customerName_req req,
                   customerEmail = customerEmail_req req,
                   customerPhone = customerPhone_req req,
                   address = address_req req,
                   city = city_req req,
                   items_order = items,
                   subtotal_order = None,
                   deliveryFee_order = deliveryFee,
                   total_order = None,
                   couponCode_order = str_or couponCode [],
                   couponDiscount_order = couponDiscount,
                   paymentMethod_order = str_or (paymentMethod_req req) ''cash'',
                   paymentStatus_order = None,
                   notes_order = str_or (notes_req req) [],
                   userId_order = None,
                   isGuestOrder_order = None,
                   paymentId_order = None\<rparr>
      in (d\<lparr>coupons := coupons',
            orders := orders d @ [order],
            carts := deleteMany (\<lambda>c. userId_cart c = str_or (userId_req req) ''guest'') (carts d)\<rparr>,
          Created_201 order))"

text \<open>
  The body of \<^verbatim>\<open>POST /api/checkout\<close>. A line is taken to carry a numeric price and
  quantity; every other field may be missing.
\<close>

record checkout_item =
  productId_line :: int
  productName_line :: "string option"
  price_line :: real
  quantity_line :: real
  totalPrice_line :: "real option"
  selectedOptions_line :: "object option"
  optionsPricing_line :: "object option"
  productImage_line :: "string option"
  attachments_line :: "attachments option"

record customerInfo =
  name_info :: "string option"
  email_info :: "string option"
  phone_info :: "string option"
  address_info :: "string option"
  city_info :: "string option"
  notes_info :: "string option"

record appliedCoupon =
  code_applied :: "string option"

record checkout_req =
  items_co :: "checkout_item list"
  customerInfo_co :: customerInfo
  paymentMethod_co :: "string option"
  total_co :: "real option"
  subtotal_co :: "real option"
  deliveryFee_co :: "real option"
  couponDiscount_co :: "real option"
  appliedCoupon_co :: "appliedCoupon option"
  paymentId_co :: "string option"
  paymentStatus_co :: "string option"
  userId_co :: "string option"
  isGuestOrder_co :: "bool option"

text \<open>The default name of a line without one (an Arabic literal, ``unknown product'').\<close>

definition unknown_product :: string where
  "unknown_product = ''unknown product''"

definition orderItem :: "checkout_item \<Rightarrow> order_item" where
  "orderItem item =
     \<lparr>productId_item = productId_line item,
      productName_item = str_or (productName_line item) unknown_product,
      price_item = num_or (Some (price_line item)) 0,
      quantity_item = num_or (Some (quantity_line item)) 1,
      totalPrice_item = num_or (totalPrice_line item) (price_line item * quantity_line item),
      selectedOptions_item =
        (case selectedOptions_line item of None \<Rightarrow> fmempty | Some obj \<Rightarrow> obj),
      optionsPricing_item =
        (case optionsPricing_line item of None \<Rightarrow> fmempty | Some obj \<Rightarrow> obj),
      productImage_item = str_or (productImage_line item) [],
      attachments_item =
        (case attachments_line item of
           None \<Rightarrow> \<lparr>text_att = None, images_att = None\<rparr> | Some a \<Rightarrow> a)\<rparr>"

text \<open>
  \<^verbatim>\<open>POST /api/checkout\<close>. The subtotal, the delivery fee, the coupon discount and the
  total are the values of the request body when they are present and not zero, each with
  a fallback otherwise; the coupon code is copied from \<^verbatim>\<open>appliedCoupon\<close>. The handler
  reads no coupon and writes only the order.
\<close>

definition checkout :: "checkout_req \<Rightarrow> db \<Rightarrow> db \<times> order_reply" where
  "checkout req d =
     (let orderItems = map orderItem (items_co req);
          orderSubtotal =
            num_or (subtotal_co req) (foldl (\<lambda>sum item. sum + totalPrice_item item) 0 orderItems);
          orderDeliveryFee = num_or (deliveryFee_co req) 0;
          orderCouponDiscount = num_or (couponDiscount_co req) 0;
          orderTotal =
            num_or (total_co req) (orderSubtotal + orderDeliveryFee - orderCouponDiscount);
          couponCode =
            (case appliedCoupon_co req of
               None \<Rightarrow> []
             | Some applied \<Rightarrow> str_or (code_applied applied) []);
          customer = customerInfo_co req;
          userId = userId_co req;
          order = \<lparr>customerName = name_info customer,
                   customerEmail = Some (str_or (email_info customer) []),
                   customerPhone = Some (str_or (phone_info customer) []),
                   address = address_info customer,
                   city = city_info customer,
                   items_order = orderItems,
                   subtotal_order = Some orderSubtotal,
                   deliveryFee_order = orderDeliveryFee,
                   total_order = Some orderTotal,
                   couponCode_order = couponCode,
                   couponDiscount_order = orderCouponDiscount,
                   paymentMethod_order = str_or (paymentMethod_co req) ''cod'',
                   paymentStatus_order = Some (str_or (paymentStatus_co req) ''pending''),
                   notes_order = str_or (notes_info customer) [],
                   userId_order = Some (str_or userId ''guest''),
                   isGuestOrder_order =
                     Some (case isGuestOrder_co req of
                             Some b \<Rightarrow> b
                           | None \<Rightarrow> userId = Some ''guest'' \<or> str_or userId [] = []),
                   paymentId_order =
                     (if str_or (paymentId_co req) [] \<noteq> [] then paymentId_co req else None)\<rparr>
      in (d\<lparr>orders := orders d @ [order]\<rparr>, Created_201 order))"

text \<open>The order that a reply carries.\<close>

fun created :: "order_reply \<Rightarrow> order" where
  "created (Created_201 ord) = ord"

subsection \<open>Sample data\<close>

text \<open>
  A database with one coupon, ten percent off orders of at least 50, usable three times
  and not used yet; the same coupon used up; and one order line of 100.
\<close>

definition save10 :: coupon where
  "save10 = \<lparr>code = ''SAVE10'', discountType = percentage, discountValue = 10,
             minOrderAmount = 50, maxUsage = Some 3, usedCount = 0, isActive_coupon = True,
             expiresAt = None\<rparr>"

definition shop :: db where
  "shop = \<lparr>coupons = [save10], products = [], categories = [], carts = [],
           wishlists = [], orders = []\<rparr>"

definition shop_used_up :: db where
  "shop_used_up = shop\<lparr>coupons := [save10\<lparr>usedCount := 3\<rparr>]\<rparr>"

definition gown_line :: checkout_item where
  "gown_line = \<lparr>productId_line = 1, productName_line = Some ''gown'', price_line = 100,
                quantity_line = 1, totalPrice_line = Some 100, selectedOptions_line = None,
                optionsPricing_line = None, productImage_line = None,
                attachments_line = None\<rparr>"

definition buyer :: customerInfo where
  "buyer = \<lparr>name_info = Some ''Mona'', email_info = None, phone_info = Some ''0100'',
            address_info = Some ''1 Nile St'', city_info = Some ''Cairo'', notes_info = None\<rparr>"

text \<open>
  A checkout request for that line with the coupon applied, with the discount and the
  total as an honest client computes them.
\<close>

definition checkout_save10 :: checkout_req where
  "checkout_save10 =
     \<lparr>items_co = [gown_line], customerInfo_co = buyer, paymentMethod_co = None,
      total_co = Some 90, subtotal_co = Some 100, deliveryFee_co = None,
      couponDiscount_co = Some 10,
      appliedCoupon_co = Some \<lparr>code_applied = Some ''SAVE10''\<rparr>,
      paymentId_co = None, paymentStatus_co = None, userId_co = None,
      isGuestOrder_co = None\<rparr>"

text \<open>The same order sent to \<^verbatim>\<open>POST /api/orders\<close>.\<close>

definition orders_save10 :: orders_req where
  "orders_save10 =
     \<lparr>customerName_req = Some ''Mona'', customerEmail_req = None,
      customerPhone_req = Some ''0100'', address_req = Some ''1 Nile St'',
      city_req = Some ''Cairo'', items_req = [orderItem gown_line],
      couponCode_req = Some ''save10'', paymentMethod_req = None, notes_req = None,
      deliveryFee_req = None, userId_req = None\<rparr>"

subsection \<open>Adding to the cart\<close>

text \<open>
  The body of \<^verbatim>\<open>POST /api/cart\<close> and of \<^verbatim>\<open>POST /api/user/:userId/cart\<close>. The product
  id is taken to be an integer and the selected options, when present, to be an object.
  The handlers read neither \<^verbatim>\<open>productName\<close>, \<^verbatim>\<open>price\<close> nor \<^verbatim>\<open>image\<close> of the body.
\<close>

record cart_req =
  userId_body :: "string option"
  productId_body :: int
  productName_body :: "string option"
  price_body :: "real option"
  quantity_body :: "int option"
  image_body :: "string option"
  selectedOptions_body :: "object option"
  optionsPricing_body :: "object option"
  attachments_body :: "attachments option"

datatype cart_reply =
  Cart_404_product_not_found
| Cart_200 cart_item
| Cart_201 cart_item

text \<open>
  The product lookup of the two handlers. For an integer id the first attempt is
  \<^verbatim>\<open>Product.findOne({ id: parseInt(productId) })\<close>; the two fallbacks compare the
  database's own \<^verbatim>\<open>_id\<close>, which is not part of this model, and otherwise repeat the
  comparison of \<^verbatim>\<open>id\<close>.
\<close>

definition find_product :: "int \<Rightarrow> product list \<Rightarrow> product option" where
  "find_product productId ps = findOne (\<lambda>p. id_prod p = productId) ps"

text \<open>
  Modelled from the spec: how the filter \<^verbatim>\<open>{ userId, productId: product.id,
  selectedOptions }\<close> of the cart lookup matches a stored line. The handlers hand the filter
  to \<^verbatim>\<open>Cart.findOne\<close>; the comparison itself is done behind \<^verbatim>\<open>models/Cart.js\<close>, which
  is not among the sources. By the specification a line matches on the exact user id and
  product id, and on selected options that are equal by structural, deep equality of the
  mapping from option names to values, which is the equality of \<open>object\<close>.
\<close>

definition same_line :: "string \<Rightarrow> int \<Rightarrow> object \<Rightarrow> cart_item \<Rightarrow> bool" where
  "same_line userId productId selectedOptions c \<longleftrightarrow>
     userId_cart c = userId \<and> productId_cart c = productId \<and>
     selectedOptions_cart c = selectedOptions"

text \<open>\<^verbatim>\<open>attachments && (attachments.text || attachments.images?.length > 0)\<close>\<close>

definition has_attachments :: "attachments option \<Rightarrow> bool" where
  "has_attachments a =
     (case a of
        None \<Rightarrow> False
      | Some att \<Rightarrow>
          str_or (text_att att) [] \<noteq> [] \<or>
          (case images_att att of None \<Rightarrow> False | Some images \<Rightarrow> length images > 0))"

text \<open>
  What the handlers do to the line they found: the quantity grows by the quantity of the
  request, and the attachments are replaced when the request brings some.
\<close>

definition merge_line :: "int \<Rightarrow> attachments option \<Rightarrow> cart_item \<Rightarrow> cart_item" where
  "merge_line quantity att existingItem =
     (let item = existingItem\<lparr>quantity_cart := quantity_cart existingItem + quantity\<rparr>
      in if has_attachments att
         then item\<lparr>attachments_cart :=
                     (case att of None \<Rightarrow> attachments_cart item | Some a \<Rightarrow> a)\<rparr>
         else item)"

text \<open>The defaults of the destructured body: \<^verbatim>\<open>quantity = 1\<close> and \<^verbatim>\<open>selectedOptions = {}\<close>.\<close>

definition quantity_of :: "cart_req \<Rightarrow> int" where
  "quantity_of req = (case quantity_body req of None \<Rightarrow> 1 | Some q \<Rightarrow> q)"

definition selectedOptions_of :: "cart_req \<Rightarrow> object" where
  "selectedOptions_of req =
     (case selectedOptions_body req of None \<Rightarrow> fmempty | Some obj \<Rightarrow> obj)"

text \<open>The body that the two handlers share, for the user id each of them determines.\<close>

definition add_to_cart :: "string \<Rightarrow> cart_req \<Rightarrow> db \<Rightarrow> db \<times> cart_reply" where
  "add_to_cart userId req d =
     (let quantity = quantity_of req;
          selectedOptions = selectedOptions_of req;
          optionsPricing =
            (case optionsPricing_body req of None \<Rightarrow> fmempty | Some obj \<Rightarrow> obj);
          att = attachments_body req
      in case find_product (productId_body req) (products d) of
           None \<Rightarrow> (d, Cart_404_product_not_found)
         | Some product \<Rightarrow>
             (case findOne (same_line userId (id_prod product) selectedOptions) (carts d) of
                Some existingItem \<Rightarrow>
                  (d\<lparr>carts := updateFirst (same_line userId (id_prod product) selectedOptions)
                                (merge_line quantity att) (carts d)\<rparr>,
                   Cart_200 (merge_line quantity att existingItem))
              | None \<Rightarrow>
                  (let cartItem =
                         \<lparr>userId_cart = userId,
                          productId_cart = id_prod product,
                          productName_cart = name_prod product,
                          price_cart = price_prod product,
                          quantity_cart = quantity,
                          image_cart = mainImage product,
                          selectedOptions_cart = selectedOptions,
                          optionsPricing_cart = optionsPricing,
                          attachments_cart =
                            (case att of
                               None \<Rightarrow> \<lparr>text_att = None, images_att = None\<rparr>
                             | Some a \<Rightarrow> a)\<rparr>
                   in (d\<lparr>carts := carts d @ [cartItem]\<rparr>, Cart_201 cartItem))))"

text \<open>\<^verbatim>\<open>POST /api/cart\<close>: the user id comes from the body, \<^verbatim>\<open>'guest'\<close> when it has none.\<close>

definition post_cart :: "cart_req \<Rightarrow> db \<Rightarrow> db \<times> cart_reply" where
  "post_cart req d =
     add_to_cart (case userId_body req of None \<Rightarrow> ''guest'' | Some u \<Rightarrow> u) req d"

text \<open>\<^verbatim>\<open>POST /api/user/:userId/cart\<close>: the user id comes from the path.\<close>

definition post_user_cart :: "string \<Rightarrow> cart_req \<Rightarrow> db \<Rightarrow> db \<times> cart_reply" where
  "post_user_cart userId req d = add_to_cart userId req d"

text \<open>The uniqueness key of a cart line.\<close>

definition line_key :: "cart_item \<Rightarrow> string \<times> int \<times> object" where
  "line_key c = (userId_cart c, productId_cart c, selectedOptions_cart c)"

subsection \<open>Updating a product\<close>

definition isValidBase64Image :: "string \<Rightarrow> bool" where
  "isValidBase64Image base64String \<longleftrightarrow>
     base64String \<noteq> [] \<and>
     list_ex (\<lambda>kind. prefix (''data:image/'' @ kind @ '';base64,'') base64String)
       [''jpeg'', ''jpg'', ''png'', ''gif'', ''webp'', ''avif'']"

text \<open>\<^verbatim>\<open>optimizeBase64Image\<close> returns a valid image as it is and \<^verbatim>\<open>null\<close> otherwise.\<close>

definition optimizeBase64Image :: "string \<Rightarrow> string option" where
  "optimizeBase64Image base64String =
     (if \<not> isValidBase64Image base64String then None else Some base64String)"

text \<open>
  The body of \<^verbatim>\<open>PUT /api/products/:id\<close>, with numbers where the handler parses numbers.
\<close>

record product_req =
  name_put :: string
  description_put :: "string option"
  price_put :: real
  originalPrice_put :: "real option"
  stock_put :: int
  categoryId_put :: int
  productType_put :: "string option"
  mainImage_put :: "string option"
  detailedImages_put :: "string list option"

datatype product_reply =
  Product_400_invalid_main_image
| Product_404_not_found
| Product_200 product

text \<open>The default product type (an Arabic literal, ``scarf and cap'').\<close>

definition default_productType :: string where
  "default_productType = ''scarf and cap''"

text \<open>The update document \<^verbatim>\<open>updateData\<close>, as a change of the product it is applied to.\<close>

definition updateData :: "product_req \<Rightarrow> product \<Rightarrow> product" where
  "updateData req p =
     p\<lparr>name_prod := name_put req,
       description_prod := str_or (description_put req) [],
       price_prod := price_put req,
       originalPrice :=
         (case originalPrice_put req of
            None \<Rightarrow> None
          | Some v \<Rightarrow> if v \<noteq> 0 \<and> v > 0 then Some v else None),
       stock := stock_put req,
       categoryId := categoryId_put req,
       productType := str_or (productType_put req) default_productType,
       sizeGuideImage := [],
       mainImage :=
         (if str_or (mainImage_put req) [] \<noteq> [] then
            (case optimizeBase64Image (str_or (mainImage_put req) []) of
               Some optimized \<Rightarrow> if optimized \<noteq> [] then optimized else mainImage p
             | None \<Rightarrow> mainImage p)
          else mainImage p),
       detailedImages :=
         (case detailedImages_put req of
            None \<Rightarrow> detailedImages p
          | Some images \<Rightarrow>
              concat (map (\<lambda>image.
                             if isValidBase64Image image then
                               (case optimizeBase64Image image of
                                  Some optimized \<Rightarrow> if optimized \<noteq> [] then [optimized] else []
                                | None \<Rightarrow> [])
                             else []) images))\<rparr>"

definition put_product :: "int \<Rightarrow> product_req \<Rightarrow> db \<Rightarrow> db \<times> product_reply" where
  "put_product id_in req d =
     (if str_or (mainImage_put req) [] \<noteq> [] \<and>
         \<not> isValidBase64Image (str_or (mainImage_put req) [])
      then (d, Product_400_invalid_main_image)
      else case findOne (\<lambda>p. id_prod p = id_in) (products d) of
             None \<Rightarrow> (d, Product_404_not_found)
           | Some product \<Rightarrow>
               (d\<lparr>products := updateFirst (\<lambda>p. id_prod p = id_in) (updateData req) (products d)\<rparr>,
                Product_200 (updateData req product)))"

subsection \<open>Wishlist\<close>

text \<open>The body of \<^verbatim>\<open>POST /api/wishlist\<close>; the product id is taken to be an integer.\<close>

record wishlist_req =
  userId_wished :: "string option"
  productId_wished :: int
  productName_wished :: "string option"
  price_wished :: "real option"
  image_wished :: "string option"

datatype wishlist_reply =
  Wishlist_400_already_there
| Wishlist_404_product_not_found
| Wishlist_201 wishlist_item

text \<open>The filter \<^verbatim>\<open>{ userId, productId }\<close> of the wishlist lookup.\<close>

definition same_wish :: "string \<Rightarrow> int \<Rightarrow> wishlist_item \<Rightarrow> bool" where
  "same_wish userId productId w \<longleftrightarrow> userId_wish w = userId \<and> productId_wish w = productId"

text \<open>\<^verbatim>\<open>POST /api/wishlist\<close>: the entry is built from the body; no product is looked up.\<close>

definition post_wishlist :: "wishlist_req \<Rightarrow> db \<Rightarrow> db \<times> wishlist_reply" where
  "post_wishlist req d =
     (let userId = (case userId_wished req of None \<Rightarrow> ''guest'' | Some u \<Rightarrow> u);
          productId = productId_wished req
      in case findOne (same_wish userId productId) (wishlists d) of
           Some existingItem \<Rightarrow> (d, Wishlist_400_already_there)
         | None \<Rightarrow>
             (let wishlistItem =
                    \<lparr>userId_wish = userId,
                     productId_wish = productId,
                     productName_wish = productName_wished req,
                     price_wish = price_wished req,
                     image_wish = (case image_wished req of None \<Rightarrow> [] | Some i \<Rightarrow> i)\<rparr>
              in (d\<lparr>wishlists := wishlists d @ [wishlistItem]\<rparr>, Wishlist_201 wishlistItem)))"

text \<open>
  \<^verbatim>\<open>POST /api/user/:userId/wishlist\<close>: the product is looked up first, and a missing
  product is answered 404 before the wishlist is read.
\<close>

definition post_user_wishlist :: "string \<Rightarrow> int \<Rightarrow> db \<Rightarrow> db \<times> wishlist_reply" where
  "post_user_wishlist userId productId d =
     (case findOne (\<lambda>p. id_prod p = productId) (products d) of
        None \<Rightarrow> (d, Wishlist_404_product_not_found)
      | Some product \<Rightarrow>
          (case findOne (same_wish userId productId) (wishlists d) of
             Some existingItem \<Rightarrow> (d, Wishlist_400_already_there)
           | None \<Rightarrow>
               (let wishlistItem =
                      \<lparr>userId_wish = userId,
                       productId_wish = productId,
                       productName_wish = Some (name_prod product),
                       price_wish = Some (price_prod product),
                       image_wish = mainImage product\<rparr>
                in (d\<lparr>wishlists := wishlists d @ [wishlistItem]\<rparr>,
                    Wishlist_201 wishlistItem))))"

text \<open>The pair that identifies a wishlist entry.\<close>

definition wish_key :: "wishlist_item \<Rightarrow> string \<times> int" where
  "wish_key w = (userId_wish w, productId_wish w)"

text \<open>
  The databases that the handlers can produce from an empty wishlist. Entries are added by
  the two handlers above only. They are removed by \<^verbatim>\<open>Wishlist.findOneAndDelete\<close>
  (\<^verbatim>\<open>DELETE /api/wishlist/:id\<close>, \<^verbatim>\<open>DELETE /api/user/:userId/wishlist/product/:productId\<close>)
  and by \<^verbatim>\<open>Wishlist.deleteMany\<close> (\<^verbatim>\<open>DELETE /api/customers/:id\<close>), here with any
  filter; no handler updates an entry. Every other handler leaves the wishlist as it is.
\<close>

inductive wishlist_history :: "db \<Rightarrow> bool" where
  empty: "wishlists d = [] \<Longrightarrow> wishlist_history d"
| elsewhere: "wishlist_history d \<Longrightarrow> wishlists d' = wishlists d \<Longrightarrow> wishlist_history d'"
| add: "wishlist_history d \<Longrightarrow> wishlist_history (fst (post_wishlist req d))"
| add_user: "wishlist_history d \<Longrightarrow> wishlist_history (fst (post_user_wishlist userId productId d))"
| delete_one: "wishlist_history d \<Longrightarrow>
               wishlist_history (d\<lparr>wishlists := deleteFirst P (wishlists d)\<rparr>)"
| delete_many: "wishlist_history d \<Longrightarrow>
                wishlist_history (d\<lparr>wishlists := deleteMany P (wishlists d)\<rparr>)"

subsection \<open>Categories\<close>

text \<open>\<^verbatim>\<open>GET /api/categories\<close>: the active categories, newest first.\<close>

definition get_categories :: "db \<Rightarrow> category list" where
  "get_categories d = sort_key (\<lambda>c. - createdAt_cat c) (filter isActive_cat (categories d))"

text \<open>\<^verbatim>\<open>GET /api/categories/:id\<close>: the active category with the id, or 404 (\<open>None\<close>).\<close>

definition get_category :: "int \<Rightarrow> db \<Rightarrow> category option" where
  "get_category id_in d = findOne (\<lambda>c. id_cat c = id_in \<and> isActive_cat c) (categories d)"

datatype category_reply =
  Category_400_has_products nat
| Category_404_not_found
| Category_200_deleted

text \<open>
  \<^verbatim>\<open>DELETE /api/categories/:id\<close>: refused while active products carry the category id;
  otherwise the category with the id has \<^verbatim>\<open>isActive\<close> set to \<^verbatim>\<open>false\<close>.
\<close>

definition delete_category :: "int \<Rightarrow> db \<Rightarrow> db \<times> category_reply" where
  "delete_category categoryId_in d =
     (let productCount =
            length (filter (\<lambda>p. categoryId p = categoryId_in \<and> isActive_prod p) (products d))
      in if productCount > 0 then (d, Category_400_has_products productCount)
         else case findOne (\<lambda>c. id_cat c = categoryId_in) (categories d) of
                None \<Rightarrow> (d, Category_404_not_found)
              | Some category \<Rightarrow>
                  (d\<lparr>categories := updateFirst (\<lambda>c. id_cat c = categoryId_in)
                                      (\<lambda>c. c\<lparr>isActive_cat := False\<rparr>) (categories d)\<rparr>,
                   Category_200_deleted))"

subsection \<open>Sample catalogue and cart requests\<close>

definition gown :: product where
  "gown = \<lparr>id_prod = 1, name_prod = ''gown'', description_prod = ''graduation gown'',
           price_prod = 250, originalPrice = Some 300, stock = 10, categoryId = 1,
           productType = ''gown'', mainImage = ''/images/gown.jpg'', detailedImages = [],
           sizeGuideImage = [], isActive_prod = True\<rparr>"

definition boutique :: db where
  "boutique = shop\<lparr>products := [gown]\<rparr>"

text \<open>The option objects \<^verbatim>\<open>{ size: 'M' }\<close> and \<^verbatim>\<open>{ size: 'L' }\<close>.\<close>

definition size_M :: object where
  "size_M = fmap_of_list [(''size'', JStr ''M'')]"




text \<open>Two gowns of size M for the guest; the body also names a price of its own.\<close>

definition add_M :: cart_req where
  "add_M = \<lparr>userId_body = None, productId_body = 1, productName_body = Some ''robe'',
            price_body = Some 1, quantity_body = Some 2, image_body = None,
            selectedOptions_body = Some size_M,
            optionsPricing_body = None, attachments_body = None\<rparr>"

text \<open>The line that request creates in an empty cart.\<close>

definition line_M :: cart_item where
  "line_M = \<lparr>userId_cart = ''guest'', productId_cart = 1, productName_cart = ''gown'',
             price_cart = 250, quantity_cart = 2, image_cart = ''/images/gown.jpg'',
             selectedOptions_cart = size_M, optionsPricing_cart = fmempty,
             attachments_cart = \<lparr>text_att = None, images_att = None\<rparr>\<rparr>"

text \<open>A new price and name for the gown.\<close>

definition reprice :: product_req where
  "reprice = \<lparr>name_put = ''gown deluxe'', description_put = None, price_put = 400,
              originalPrice_put = None, stock_put = 10, categoryId_put = 1,
              productType_put = None, mainImage_put = None, detailedImages_put = None\<rparr>"

text \<open>
  A wishlist entry for a product that the catalogue does not have, as
  \<^verbatim>\<open>POST /api/wishlist\<close> accepts it, and two categories, the first with the gown in it.
\<close>

definition wish_ghost :: wishlist_req where
  "wish_ghost = \<lparr>userId_wished = Some ''7'', productId_wished = 999,
                 productName_wished = Some ''ghost'', price_wished = Some 5,
                 image_wished = None\<rparr>"

definition gowns :: category where
  "gowns = \<lparr>id_cat = 1, name_cat = ''gowns'', description_cat = [], image_cat = [],
            isActive_cat = True, createdAt_cat = 10\<rparr>"

definition caps :: category where
  "caps = \<lparr>id_cat = 2, name_cat = ''caps'', description_cat = [], image_cat = [],
           isActive_cat = True, createdAt_cat = 20\<rparr>"

definition department :: db where
  "department = boutique\<lparr>categories := [gowns, caps]\<rparr>"

section \<open>Properties\<close>

subsection \<open>Evaluating the handlers on the sample data\<close>

lemma toUpperCase_save10: "toUpperCase ''save10'' = ''SAVE10''"
  by code_simp

subsection \<open>Discount calculation\<close>

lemma calculateDiscount_first_failure:
  "calculateDiscount now c S =
     (case first_failure (preconditions now c S) of
        Some r \<Rightarrow> Inl r
      | None \<Rightarrow> Inr (clamped_discount c S))"
  by (simp add: calculateDiscount_def preconditions_def)






subsection \<open>Order of the validation checks\<close>

text \<open>
  The claim as stated fails in its last part: a used-up coupon that is also expired is
  rejected as expired, one that is also inactive as inactive, and at
  \<^verbatim>\<open>POST /api/coupons/validate\<close> the lookup does not find the inactive one, so the reply
  is 404 ``invalid coupon''. None of these is the usage-limit reason.
\<close>

theorem used_up_other_reason_counterexample:
  "maxUsage (save10\<lparr>usedCount := 3, isActive_coupon := False\<rparr>) = Some 3 \<and>
   usedCount (save10\<lparr>usedCount := 3, isActive_coupon := False\<rparr>) = 3 \<and>
   coupons_validate 0 [save10\<lparr>usedCount := 3, isActive_coupon := False\<rparr>] ''save10'' 100 =
     Validate_404_invalid_coupon \<and>
   calculateDiscount 0 (save10\<lparr>usedCount := 3, isActive_coupon := False\<rparr>) 100 =
     Inl coupon_inactive \<and>
   calculateDiscount 5 (save10\<lparr>usedCount := 3, expiresAt := Some 1\<rparr>) 100 =
     Inl coupon_expired \<and>
   coupons_validate 5 [save10\<lparr>usedCount := 3, expiresAt := Some 1\<rparr>] ''save10'' 100 =
     Validate_400 coupon_expired"
  by (simp add: coupons_validate_def findOne_def active_with_code_def toUpperCase_save10
        calculateDiscount_def save10_def)

lemma usage_limit_rejects:
  assumes "maxUsage c = Some m" and "usedCount c \<ge> m"
  shows "\<exists>r. calculateDiscount now c S = Inl r"
    and "isActive_coupon c \<Longrightarrow> (\<And>t. expiresAt c = Some t \<Longrightarrow> \<not> t < now) \<Longrightarrow>
           calculateDiscount now c S = Inl usage_limit_reached"
  using assms by (auto simp: calculateDiscount_def split: option.splits)

lemma coupons_validate_found:
  assumes "findOne (active_with_code k) cs = Some c"
  shows "coupons_validate now cs k S =
           (case first_failure (preconditions now c S) of
              Some r \<Rightarrow> Validate_400 r
            | None \<Rightarrow> Validate_200 c (clamped_discount c S))"
  using assms
  by (simp add: coupons_validate_def calculateDiscount_first_failure split: option.splits)

text \<open>
  Claim C2, as amended. The calculator rejects with the reason of the first precondition that fails,
  in the order active, expiry, usage limit, minimum order amount, and the four reasons
  are pairwise distinct; it computes a discount only when none fails. In particular a
  coupon with \<open>usedCount \<ge> maxUsage\<close> is rejected for every subtotal, and with the
  usage-limit reason whenever the two earlier checks pass. At
  \<^verbatim>\<open>POST /api/coupons/validate\<close> the active check is the lookup filter (answered 404),
  and the remaining three checks are answered 400 with the first failing reason.
\<close>

theorem coupon_validation_order:
  "calculateDiscount now c S =
     (case first_failure (preconditions now c S) of
        Some r \<Rightarrow> Inl r
      | None \<Rightarrow> Inr (clamped_discount c S)) \<and>
   map snd (preconditions now c S) =
     [coupon_inactive, coupon_expired, usage_limit_reached, order_below_minimum] \<and>
   distinct (map snd (preconditions now c S)) \<and>
   (maxUsage c = Some m \<and> usedCount c \<ge> m \<longrightarrow>
     (\<exists>r. calculateDiscount now c S = Inl r) \<and>
     (isActive_coupon c \<and> (\<forall>t. expiresAt c = Some t \<longrightarrow> \<not> t < now) \<longrightarrow>
        calculateDiscount now c S = Inl usage_limit_reached)) \<and>
   (findOne (active_with_code k) cs = None \<longrightarrow>
     coupons_validate now cs k S = Validate_404_invalid_coupon) \<and>
   (findOne (active_with_code k) cs = Some c \<longrightarrow>
     coupons_validate now cs k S =
       (case first_failure (preconditions now c S) of
          Some r \<Rightarrow> Validate_400 r
        | None \<Rightarrow> Validate_200 c (clamped_discount c S)))"
proof (intro conjI impI)
  show "calculateDiscount now c S =
     (case first_failure (preconditions now c S) of
        Some r \<Rightarrow> Inl r
      | None \<Rightarrow> Inr (clamped_discount c S))"
    by (rule calculateDiscount_first_failure)
  show order: "map snd (preconditions now c S) =
     [coupon_inactive, coupon_expired, usage_limit_reached, order_below_minimum]"
    by (simp add: preconditions_def)
  show "distinct (map snd (preconditions now c S))"
    by (simp add: order)
next
  assume "maxUsage c = Some m \<and> usedCount c \<ge> m"
  then show "\<exists>r. calculateDiscount now c S = Inl r"
    using usage_limit_rejects(1) by blast
next
  assume "maxUsage c = Some m \<and> usedCount c \<ge> m"
    and "isActive_coupon c \<and> (\<forall>t. expiresAt c = Some t \<longrightarrow> \<not> t < now)"
  then show "calculateDiscount now c S = Inl usage_limit_reached"
    using usage_limit_rejects(2) by blast
next
  assume "findOne (active_with_code k) cs = None"
  then show "coupons_validate now cs k S = Validate_404_invalid_coupon"
    by (simp add: coupons_validate_def)
next
  assume "findOne (active_with_code k) cs = Some c"
  then show "coupons_validate now cs k S =
       (case first_failure (preconditions now c S) of
          Some r \<Rightarrow> Validate_400 r
        | None \<Rightarrow> Validate_200 c (clamped_discount c S))"
    by (rule coupons_validate_found)
qed

theorem coupon_validation_order_witness:
  "coupons_validate 0
     [\<lparr>code = ''SAVE10'', discountType = percentage, discountValue = 10,
       minOrderAmount = 50, maxUsage = Some 3, usedCount = 3, isActive_coupon = True,
       expiresAt = None\<rparr>] ''save10'' 20 = Validate_400 usage_limit_reached \<and>
   calculateDiscount 0
     \<lparr>code = ''SAVE10'', discountType = percentage, discountValue = 10,
      minOrderAmount = 50, maxUsage = Some 3, usedCount = 3, isActive_coupon = True,
      expiresAt = None\<rparr> 20 = Inl usage_limit_reached"
  using coupon_validation_order
    [of 0 "\<lparr>code = ''SAVE10'', discountType = percentage, discountValue = 10,
            minOrderAmount = 50, maxUsage = Some 3, usedCount = 3, isActive_coupon = True,
            expiresAt = None\<rparr>" 20 3 "''save10''"
        "[\<lparr>code = ''SAVE10'', discountType = percentage, discountValue = 10,
           minOrderAmount = 50, maxUsage = Some 3, usedCount = 3, isActive_coupon = True,
           expiresAt = None\<rparr>]"]
  by (simp add: findOne_def active_with_code_def toUpperCase_save10 preconditions_def)

subsection \<open>Coupons at order creation\<close>

lemmas sample_data =
  shop_def shop_used_up_def save10_def gown_line_def buyer_def checkout_save10_def
  orders_save10_def unknown_product_def

lemmas run_handlers =
  checkout_def post_orders_def orderItem_def items_subtotal_def Let_def num_or_def str_or_def
  findOne_def active_with_code_def toUpperCase_save10 calculateDiscount_def
  clamped_discount_def deleteMany_def


lemma post_orders_accepted:
  assumes "str_or (couponCode_req req) [] \<noteq> []"
    and "findOne (active_with_code (str_or (couponCode_req req) [])) (coupons d) = Some c"
    and "calculateDiscount now c (items_subtotal (items_req req)) = Inr disc"
  shows "coupons (fst (post_orders now req d)) =
           updateFirst (active_with_code (str_or (couponCode_req req) []))
             (\<lambda>c. c\<lparr>usedCount := usedCount c + 1\<rparr>) (coupons d)"
    and "couponDiscount_order (created (snd (post_orders now req d))) = disc"
  using assms by (simp_all add: post_orders_def Let_def)

lemma post_orders_not_accepted:
  assumes "str_or (couponCode_req req) [] = [] \<or>
           findOne (active_with_code (str_or (couponCode_req req) [])) (coupons d) = None \<or>
           (\<exists>c r. findOne (active_with_code (str_or (couponCode_req req) [])) (coupons d) = Some c \<and>
                  calculateDiscount now c (items_subtotal (items_req req)) = Inl r)"
  shows "coupons (fst (post_orders now req d)) = coupons d"
    and "couponDiscount_order (created (snd (post_orders now req d))) = 0"
    and "orders (fst (post_orders now req d)) =
           orders d @ [created (snd (post_orders now req d))]"
  using assms by (auto simp: post_orders_def Let_def)

text \<open>
  Claim C3, which the code breaks at \<^verbatim>\<open>POST /api/checkout\<close>. The checkout request with
  the coupon \<^verbatim>\<open>SAVE10\<close> applied creates an order that carries the coupon code, and the
  coupon's \<open>usedCount\<close> is still \<open>0\<close> afterwards; the same order sent to
  \<^verbatim>\<open>POST /api/orders\<close> leaves it at \<open>1\<close>.
\<close>

theorem checkout_leaves_usedCount:
  "map couponCode_order (orders (fst (checkout checkout_save10 shop))) = [''SAVE10''] \<and>
   map usedCount (coupons (fst (checkout checkout_save10 shop))) = [0] \<and>
   map usedCount (coupons (fst (post_orders 0 orders_save10 shop))) = [1]"
  by (simp add: run_handlers sample_data)

text \<open>
  Claim C4, which the code breaks at \<^verbatim>\<open>POST /api/checkout\<close>. For an order of 100 the
  calculator gives the coupon \<^verbatim>\<open>SAVE10\<close> a discount of 10, and \<^verbatim>\<open>POST /api/orders\<close>
  persists that; a checkout request for the same order that claims a discount of 999 has
  999 persisted as \<open>couponDiscount\<close> and \<open>100 + 0 - 999\<close> as \<open>total\<close>.
\<close>

theorem checkout_persists_client_discount:
  "calculateDiscount 0 save10 100 = Inr 10 \<and>
   couponDiscount_order (created (snd (post_orders 0 orders_save10 shop))) = 10 \<and>
   couponCode_order
     (created (snd (checkout
        (checkout_save10\<lparr>couponDiscount_co := Some 999, total_co := None\<rparr>) shop))) = ''SAVE10'' \<and>
   couponDiscount_order
     (created (snd (checkout
        (checkout_save10\<lparr>couponDiscount_co := Some 999, total_co := None\<rparr>) shop))) = 999 \<and>
   total_order
     (created (snd (checkout
        (checkout_save10\<lparr>couponDiscount_co := Some 999, total_co := None\<rparr>) shop))) = Some (- 899)"
  by (simp add: run_handlers sample_data)

subsection \<open>Order total\<close>





subsection \<open>Reporting a rejected coupon\<close>

text \<open>
  Claim C6, as amended. At \<^verbatim>\<open>POST /api/coupons/validate\<close> a code that fails validation
  is answered with a rejection: 404 ``invalid coupon'' when no active coupon has the
  code, 400 with the calculator's reason otherwise, and different reasons give different
  replies. At \<^verbatim>\<open>POST /api/orders\<close> a code that fails validation is not reported: the
  order is created with \<open>couponDiscount = 0\<close> and the coupons are left as they were.
\<close>

theorem coupon_rejection_reporting:
  "(findOne (active_with_code k) cs = None \<longrightarrow>
      coupons_validate now cs k S = Validate_404_invalid_coupon) \<and>
   (findOne (active_with_code k) cs = Some c \<and> calculateDiscount now c S = Inl r \<longrightarrow>
      coupons_validate now cs k S = Validate_400 r) \<and>
   (Validate_400 r = Validate_400 r' \<longrightarrow> r = r') \<and>
   (str_or (couponCode_req req) [] \<noteq> [] \<and>
    (findOne (active_with_code (str_or (couponCode_req req) [])) (coupons d) = None \<or>
     (\<exists>c r. findOne (active_with_code (str_or (couponCode_req req) [])) (coupons d) = Some c \<and>
            calculateDiscount now c (items_subtotal (items_req req)) = Inl r)) \<longrightarrow>
      (\<exists>ord. snd (post_orders now req d) = Created_201 ord \<and>
             couponDiscount_order ord = 0 \<and>
             orders (fst (post_orders now req d)) = orders d @ [ord] \<and>
             coupons (fst (post_orders now req d)) = coupons d))"
proof (intro conjI impI)
  assume "findOne (active_with_code k) cs = None"
  then show "coupons_validate now cs k S = Validate_404_invalid_coupon"
    by (simp add: coupons_validate_def)
next
  assume "findOne (active_with_code k) cs = Some c \<and> calculateDiscount now c S = Inl r"
  then show "coupons_validate now cs k S = Validate_400 r"
    by (simp add: coupons_validate_def)
next
  assume "Validate_400 r = Validate_400 r'"
  then show "r = r'" by simp
next
  let ?k = "str_or (couponCode_req req) []"
  assume failed: "?k \<noteq> [] \<and>
    (findOne (active_with_code ?k) (coupons d) = None \<or>
     (\<exists>c r. findOne (active_with_code ?k) (coupons d) = Some c \<and>
            calculateDiscount now c (items_subtotal (items_req req)) = Inl r))"
  obtain ord where reply: "snd (post_orders now req d) = Created_201 ord"
    by (cases "snd (post_orders now req d)") simp
  then have ord: "created (snd (post_orders now req d)) = ord" by simp
  from failed have
    "couponDiscount_order (created (snd (post_orders now req d))) = 0"
    "orders (fst (post_orders now req d)) = orders d @ [created (snd (post_orders now req d))]"
    "coupons (fst (post_orders now req d)) = coupons d"
    by (simp_all add: post_orders_not_accepted)
  with reply ord show "\<exists>ord. snd (post_orders now req d) = Created_201 ord \<and>
             couponDiscount_order ord = 0 \<and>
             orders (fst (post_orders now req d)) = orders d @ [ord] \<and>
             coupons (fst (post_orders now req d)) = coupons d"
    by simp
qed

theorem coupon_rejection_reporting_witness:
  "coupons_validate 0 (coupons shop_used_up) ''save10'' 100 = Validate_400 usage_limit_reached \<and>
   coupons_validate 0 (coupons shop_used_up) ''SAVE20'' 100 = Validate_404_invalid_coupon \<and>
   (\<exists>ord. snd (post_orders 0 orders_save10 shop_used_up) = Created_201 ord \<and>
          couponDiscount_order ord = 0 \<and>
          orders (fst (post_orders 0 orders_save10 shop_used_up)) = [ord] \<and>
          coupons (fst (post_orders 0 orders_save10 shop_used_up)) = coupons shop_used_up)"
proof -
  have up: "toUpperCase ''SAVE20'' = ''SAVE20''" by code_simp
  have used: "calculateDiscount 0 (save10\<lparr>usedCount := 3\<rparr>) 100 = Inl usage_limit_reached"
    by (simp add: calculateDiscount_def save10_def)
  have found: "findOne (active_with_code ''save10'') (coupons shop_used_up) =
                 Some (save10\<lparr>usedCount := 3\<rparr>)"
    by (simp add: findOne_def active_with_code_def toUpperCase_save10 sample_data)
  have missing: "findOne (active_with_code ''SAVE20'') (coupons shop_used_up) = None"
    by (simp add: findOne_def active_with_code_def up sample_data)
  have sub: "items_subtotal (items_req orders_save10) = 100"
    by (simp add: items_subtotal_def orderItem_def num_or_def sample_data)
  have code: "str_or (couponCode_req orders_save10) [] = ''save10''"
    by (simp add: str_or_def sample_data)
  have orders0: "orders shop_used_up = []"
    by (simp add: sample_data)
  from coupon_rejection_reporting
         [of "''save10''" "coupons shop_used_up" 0 100 "save10\<lparr>usedCount := 3\<rparr>"
             usage_limit_reached usage_limit_reached orders_save10 shop_used_up]
       coupon_rejection_reporting
         [of "''SAVE20''" "coupons shop_used_up" 0 100 "save10\<lparr>usedCount := 3\<rparr>"
             usage_limit_reached usage_limit_reached orders_save10 shop_used_up]
  show ?thesis
    using used found missing sub code orders0 by auto
qed

text \<open>
  The claim as stated fails at \<^verbatim>\<open>POST /api/orders\<close>: with the coupon used up, the
  calculator rejects it, and the order is created all the same, with a discount of \<open>0\<close>
  and no rejection in the reply.
\<close>

theorem orders_silent_rejection_counterexample:
  "findOne (active_with_code ''save10'') (coupons shop_used_up) =
     Some (save10\<lparr>usedCount := 3\<rparr>) \<and>
   calculateDiscount 0 (save10\<lparr>usedCount := 3\<rparr>) (items_subtotal (items_req orders_save10)) =
     Inl usage_limit_reached \<and>
   couponCode_order (created (snd (post_orders 0 orders_save10 shop_used_up))) = ''save10'' \<and>
   couponDiscount_order (created (snd (post_orders 0 orders_save10 shop_used_up))) = 0 \<and>
   orders (fst (post_orders 0 orders_save10 shop_used_up)) =
     [created (snd (post_orders 0 orders_save10 shop_used_up))]"
  by (simp add: run_handlers sample_data)

subsection \<open>Cart lines\<close>

lemma length_updateFirst: "length (updateFirst P f xs) = length xs"
  by (induction xs) simp_all

lemma updateFirst_none: "findOne P xs = None \<Longrightarrow> updateFirst P f xs = xs"
  by (induction xs) (simp_all add: findOne_def split: if_splits)


lemma updateFirst_nth:
  "i < length xs \<Longrightarrow> updateFirst P f xs ! i = xs ! i \<or> (P (xs ! i) \<and> updateFirst P f xs ! i = f (xs ! i))"
proof (induction xs arbitrary: i)
  case Nil then show ?case by simp
next
  case (Cons x xs) then show ?case by (cases i) auto
qed

lemma distinct_key_head:
  "distinct (map k (x # xs)) \<Longrightarrow> \<forall>y\<in>set xs. k y \<noteq> k x"
  by (auto simp: image_iff)








lemma add_to_cart_not_found:
  "find_product (productId_body req) (products d) = None \<Longrightarrow>
   add_to_cart uid req d = (d, Cart_404_product_not_found)"
  by (simp add: add_to_cart_def Let_def)


lemma add_to_cart_no_match:
  assumes "find_product (productId_body req) (products d) = Some p"
    and "findOne (same_line uid (id_prod p) (selectedOptions_of req)) (carts d) = None"
  shows "\<exists>new. add_to_cart uid req d = (d\<lparr>carts := carts d @ [new]\<rparr>, Cart_201 new) \<and>
           line_key new = (uid, id_prod p, selectedOptions_of req) \<and>
           quantity_cart new = quantity_of req \<and>
           productName_cart new = name_prod p \<and> price_cart new = price_prod p \<and>
           image_cart new = mainImage p"
  using assms by (simp add: add_to_cart_def Let_def line_key_def)









lemmas cart_data = boutique_def gown_def add_M_def line_M_def reprice_def shop_def save10_def

lemmas run_cart =
  add_to_cart_def post_cart_def post_user_cart_def find_product_def findOne_def same_line_def
  merge_line_def has_attachments_def quantity_of_def selectedOptions_of_def line_key_def
  Let_def str_or_def




subsection \<open>Cart lines keep the product data of their creation\<close>

lemma put_product_carts: "carts (fst (put_product i preq d)) = carts d"
  by (simp add: put_product_def split: option.splits)

lemma add_to_cart_ignores_body:
  "add_to_cart uid (req\<lparr>productName_body := n, price_body := x, image_body := i\<rparr>) d =
   add_to_cart uid req d"
  by (simp add: add_to_cart_def quantity_of_def selectedOptions_of_def)

text \<open>
  Claim C8. When add-to-cart finds no line to merge into, the line it creates takes its
  price, product name and image from the product document it has just looked up; the
  values of these three fields in the request body have no influence on the handler.
  A later \<^verbatim>\<open>PUT /api/products/:id\<close> writes the product collection only, so every cart
  line, with the fields it stores, is what it was.
\<close>

theorem cart_line_snapshot:
  "(find_product (productId_body req) (products d) = Some p \<and>
    findOne (same_line uid (id_prod p) (selectedOptions_of req)) (carts d) = None \<longrightarrow>
      (\<exists>new. add_to_cart uid req d = (d\<lparr>carts := carts d @ [new]\<rparr>, Cart_201 new) \<and>
             price_cart new = price_prod p \<and> productName_cart new = name_prod p \<and>
             image_cart new = mainImage p)) \<and>
   add_to_cart uid (req\<lparr>productName_body := n, price_body := x, image_body := i\<rparr>) d =
     add_to_cart uid req d \<and>
   carts (fst (put_product id_in change d)) = carts d"
proof (intro conjI impI)
  assume "find_product (productId_body req) (products d) = Some p \<and>
    findOne (same_line uid (id_prod p) (selectedOptions_of req)) (carts d) = None"
  then show "\<exists>new. add_to_cart uid req d = (d\<lparr>carts := carts d @ [new]\<rparr>, Cart_201 new) \<and>
             price_cart new = price_prod p \<and> productName_cart new = name_prod p \<and>
             image_cart new = mainImage p"
    using add_to_cart_no_match [of req d p uid] by blast
qed (rule add_to_cart_ignores_body, rule put_product_carts)

theorem cart_line_snapshot_witness:
  "post_cart add_M boutique = (boutique\<lparr>carts := [line_M]\<rparr>, Cart_201 line_M) \<and>
   price_cart line_M = 250 \<and> price_body add_M = Some 1 \<and>
   map price_prod (products (fst (put_product 1 reprice (boutique\<lparr>carts := [line_M]\<rparr>)))) = [400] \<and>
   carts (fst (put_product 1 reprice (boutique\<lparr>carts := [line_M]\<rparr>))) = [line_M]"
  using cart_line_snapshot [of add_M boutique gown "''guest''" None None None 1 reprice]
    cart_line_snapshot [of add_M "boutique\<lparr>carts := [line_M]\<rparr>" gown "''guest''" None None None 1 reprice]
  by (simp add: run_cart cart_data put_product_def updateData_def default_productType_def)

subsection \<open>Wishlist entries\<close>

lemma same_wish_key: "same_wish u p = (\<lambda>w. wish_key w = (u, p))"
  by (auto simp: same_wish_def wish_key_def fun_eq_iff)

lemma findOne_present: "\<exists>x\<in>set xs. P x \<Longrightarrow> \<exists>e. findOne P xs = Some e"
  by (cases "findOne P xs") (simp_all add: findOne_def find_None_iff)

lemma distinct_append_new:
  "distinct (map k xs) \<Longrightarrow> findOne (\<lambda>x. k x = v) xs = None \<Longrightarrow> k new = v \<Longrightarrow>
   distinct (map k (xs @ [new]))"
  by (auto simp: findOne_def find_None_iff)

lemma post_wishlist_present:
  assumes "\<exists>w\<in>set (wishlists d).
             wish_key w = (case userId_wished req of None \<Rightarrow> ''guest'' | Some u \<Rightarrow> u,
                           productId_wished req)"
  shows "post_wishlist req d = (d, Wishlist_400_already_there)"
proof -
  let ?same = "same_wish (case userId_wished req of None \<Rightarrow> ''guest'' | Some u \<Rightarrow> u)
                 (productId_wished req)"
  from assms have "\<exists>w\<in>set (wishlists d). ?same w" by (simp add: same_wish_key)
  then have "\<exists>e. findOne ?same (wishlists d) = Some e" by (rule findOne_present)
  then obtain e where "findOne ?same (wishlists d) = Some e" ..
  then show ?thesis by (simp add: post_wishlist_def Let_def)
qed

lemma post_user_wishlist_present:
  assumes "\<exists>w\<in>set (wishlists d). wish_key w = (u, pid)"
  shows "post_user_wishlist u pid d =
           (d, if findOne (\<lambda>p. id_prod p = pid) (products d) = None
               then Wishlist_404_product_not_found else Wishlist_400_already_there)"
proof -
  from assms have "\<exists>w\<in>set (wishlists d). same_wish u pid w" by (simp add: same_wish_key)
  then have "\<exists>e. findOne (same_wish u pid) (wishlists d) = Some e" by (rule findOne_present)
  then obtain e where "findOne (same_wish u pid) (wishlists d) = Some e" ..
  then show ?thesis by (simp add: post_user_wishlist_def split: option.splits)
qed

lemma set_deleteFirst: "set (deleteFirst P xs) \<subseteq> set xs"
  by (induction xs) auto

lemma distinct_deleteFirst: "distinct (map k xs) \<Longrightarrow> distinct (map k (deleteFirst P xs))"
proof (induction xs)
  case Nil then show ?case by simp
next
  case (Cons x xs)
  have "k x \<notin> k ` set (deleteFirst P xs)"
    using Cons.prems set_deleteFirst [of P xs] by (simp add: image_iff subset_iff)
  with Cons show ?case by simp
qed

lemma distinct_deleteMany: "distinct (map k xs) \<Longrightarrow> distinct (map k (deleteMany P xs))"
  by (simp add: deleteMany_def distinct_map_filter)

lemma post_wishlist_distinct:
  assumes "distinct (map wish_key (wishlists d))"
  shows "distinct (map wish_key (wishlists (fst (post_wishlist req d))))"
proof -
  let ?u = "case userId_wished req of None \<Rightarrow> ''guest'' | Some u \<Rightarrow> u"
  let ?p = "productId_wished req"
  show ?thesis
  proof (cases "findOne (same_wish ?u ?p) (wishlists d)")
    case None
    then have "findOne (\<lambda>w. wish_key w = (?u, ?p)) (wishlists d) = None"
      by (simp add: same_wish_key)
    moreover have "wish_key \<lparr>userId_wish = ?u, productId_wish = ?p,
        productName_wish = productName_wished req, price_wish = price_wished req,
        image_wish = (case image_wished req of None \<Rightarrow> [] | Some i \<Rightarrow> i)\<rparr> = (?u, ?p)"
      by (simp add: wish_key_def)
    ultimately show ?thesis
      using distinct_append_new [OF assms] None by (simp add: post_wishlist_def Let_def)
  next
    case (Some e)
    with assms show ?thesis by (simp add: post_wishlist_def Let_def)
  qed
qed

lemma post_user_wishlist_distinct:
  assumes "distinct (map wish_key (wishlists d))"
  shows "distinct (map wish_key (wishlists (fst (post_user_wishlist u pid d))))"
proof (cases "findOne (\<lambda>p. id_prod p = pid) (products d)")
  case None
  with assms show ?thesis by (simp add: post_user_wishlist_def)
next
  case product: (Some product)
  show ?thesis
  proof (cases "findOne (same_wish u pid) (wishlists d)")
    case None
    then have "findOne (\<lambda>w. wish_key w = (u, pid)) (wishlists d) = None"
      by (simp add: same_wish_key)
    moreover have "wish_key \<lparr>userId_wish = u, productId_wish = pid,
        productName_wish = Some (name_prod product), price_wish = Some (price_prod product),
        image_wish = mainImage product\<rparr> = (u, pid)"
      by (simp add: wish_key_def)
    ultimately show ?thesis
      using distinct_append_new [OF assms] None product
      by (simp add: post_user_wishlist_def Let_def)
  next
    case (Some e)
    with assms product show ?thesis by (simp add: post_user_wishlist_def)
  qed
qed

lemma wishlist_history_distinct:
  "wishlist_history d \<Longrightarrow> distinct (map wish_key (wishlists d))"
proof (induction rule: wishlist_history.induct)
  case (empty d) then show ?case by simp
next
  case (elsewhere d d') then show ?case by simp
next
  case (add d req) then show ?case by (simp add: post_wishlist_distinct)
next
  case (add_user d userId productId) then show ?case by (simp add: post_user_wishlist_distinct)
next
  case (delete_one d P) then show ?case by (simp add: distinct_deleteFirst)
next
  case (delete_many d P) then show ?case by (simp add: distinct_deleteMany)
qed

lemmas run_wishlist =
  post_wishlist_def post_user_wishlist_def findOne_def same_wish_def wish_key_def Let_def

lemmas wishlist_data = wish_ghost_def cart_data

text \<open>
  Claim C9, as amended. An add-to-wishlist request for a user and a product that already
  have an entry changes nothing and is refused: by \<^verbatim>\<open>POST /api/wishlist\<close> with 400,
  by \<^verbatim>\<open>POST /api/user/:userId/wishlist\<close> with 400 when the catalogue has the product and
  with 404 when it has not. Hence every wishlist that the handlers can produce holds at
  most one entry for each user and product.
\<close>

theorem wishlist_no_duplicates:
  "((\<exists>w\<in>set (wishlists d).
       wish_key w = (case userId_wished req of None \<Rightarrow> ''guest'' | Some u \<Rightarrow> u,
                     productId_wished req)) \<longrightarrow>
      post_wishlist req d = (d, Wishlist_400_already_there)) \<and>
   ((\<exists>w\<in>set (wishlists d). wish_key w = (userId, productId)) \<longrightarrow>
      post_user_wishlist userId productId d =
        (d, if findOne (\<lambda>p. id_prod p = productId) (products d) = None
            then Wishlist_404_product_not_found else Wishlist_400_already_there)) \<and>
   (wishlist_history d \<longrightarrow> distinct (map wish_key (wishlists d)))"
  using post_wishlist_present [of d req] post_user_wishlist_present [of d userId productId]
    wishlist_history_distinct [of d]
  by blast

theorem wishlist_no_duplicates_witness:
  "wishlist_history (fst (post_wishlist wish_ghost boutique)) \<and>
   map wish_key (wishlists (fst (post_wishlist wish_ghost boutique))) = [(''7'', 999)] \<and>
   post_wishlist wish_ghost (fst (post_wishlist wish_ghost boutique)) =
     (fst (post_wishlist wish_ghost boutique), Wishlist_400_already_there)"
proof -
  have "wishlist_history boutique"
    by (rule wishlist_history.empty) (simp add: wishlist_data)
  then have hist: "wishlist_history (fst (post_wishlist wish_ghost boutique))"
    by (rule wishlist_history.add)
  have entry: "map wish_key (wishlists (fst (post_wishlist wish_ghost boutique))) = [(''7'', 999)]"
    by (simp add: run_wishlist wishlist_data)
  have present: "\<exists>w\<in>set (wishlists (fst (post_wishlist wish_ghost boutique))).
      wish_key w = (case userId_wished wish_ghost of None \<Rightarrow> ''guest'' | Some u \<Rightarrow> u,
                    productId_wished wish_ghost)"
    by (simp add: run_wishlist wishlist_data)
  from wishlist_no_duplicates
         [of "fst (post_wishlist wish_ghost boutique)" wish_ghost "''7''" 999] present
  have "post_wishlist wish_ghost (fst (post_wishlist wish_ghost boutique)) =
          (fst (post_wishlist wish_ghost boutique), Wishlist_400_already_there)"
    by blast
  with hist entry show ?thesis by blast
qed

text \<open>
  The claim as stated fails on the status code: \<^verbatim>\<open>POST /api/wishlist\<close> accepts an
  entry for a product id that the catalogue does not have, and a second request for the
  same pair through \<^verbatim>\<open>POST /api/user/:userId/wishlist\<close> is then answered 404, not 400.
\<close>

theorem user_wishlist_404_counterexample:
  "map wish_key (wishlists (fst (post_wishlist wish_ghost boutique))) = [(''7'', 999)] \<and>
   post_user_wishlist ''7'' 999 (fst (post_wishlist wish_ghost boutique)) =
     (fst (post_wishlist wish_ghost boutique), Wishlist_404_product_not_found)"
  by (simp add: run_wishlist wishlist_data)

subsection \<open>Deleting a category\<close>

lemmas run_categories =
  delete_category_def get_categories_def get_category_def findOne_def Let_def

lemmas category_data = department_def gowns_def caps_def cart_data

lemma delete_category_refused:
  assumes "\<exists>p\<in>set (products d). categoryId p = cid \<and> isActive_prod p"
  shows "\<exists>n>0. delete_category cid d = (d, Category_400_has_products n)"
proof -
  from assms have "filter (\<lambda>p. categoryId p = cid \<and> isActive_prod p) (products d) \<noteq> []"
    by (simp add: filter_empty_conv)
  then show ?thesis by (simp add: delete_category_def Let_def)
qed

lemma delete_category_done:
  assumes "snd (delete_category cid d) = Category_200_deleted"
  shows "fst (delete_category cid d) =
           d\<lparr>categories := updateFirst (\<lambda>c. id_cat c = cid)
                              (\<lambda>c. c\<lparr>isActive_cat := False\<rparr>) (categories d)\<rparr>"
  using assms by (simp add: delete_category_def Let_def split: if_splits option.splits)

lemma updateFirst_deactivates:
  assumes "distinct (map id_cat cs)"
    and "findOne (\<lambda>c. id_cat c = cid) cs \<noteq> None"
    and "c \<in> set (updateFirst (\<lambda>c. id_cat c = cid) (\<lambda>c. c\<lparr>isActive_cat := False\<rparr>) cs)"
    and "id_cat c = cid"
  shows "\<not> isActive_cat c"
  using assms
proof (induction cs)
  case Nil then show ?case by simp
next
  case (Cons x xs)
  show ?case
  proof (cases "id_cat x = cid")
    case True
    with Cons.prems(1) have "\<forall>y\<in>set xs. id_cat y \<noteq> cid"
      using distinct_key_head [of id_cat x xs] by simp
    with True Cons.prems(3,4) show ?thesis by auto
  next
    case False
    with Cons show ?thesis by (auto simp: findOne_def)
  qed
qed


text \<open>
  Claim C10. Deleting a category that an active product still carries is refused with 400
  and changes nothing. A deletion that succeeds keeps every category document in place
  and changes at most \<^verbatim>\<open>isActive\<close>, to \<^verbatim>\<open>false\<close>, on documents with the given id; the
  other collections stay as they are. With ids unique, as the index on \<^verbatim>\<open>id\<close> makes
  them, the category is afterwards neither in the list of \<^verbatim>\<open>GET /api/categories\<close> nor
  found by \<^verbatim>\<open>GET /api/categories/:id\<close>.
\<close>

theorem delete_category_soft:
  "((\<exists>p\<in>set (products d). categoryId p = cid \<and> isActive_prod p) \<longrightarrow>
      (\<exists>n>0. delete_category cid d = (d, Category_400_has_products n))) \<and>
   (snd (delete_category cid d) = Category_200_deleted \<longrightarrow>
      fst (delete_category cid d) =
        d\<lparr>categories := updateFirst (\<lambda>c. id_cat c = cid)
                           (\<lambda>c. c\<lparr>isActive_cat := False\<rparr>) (categories d)\<rparr> \<and>
      length (categories (fst (delete_category cid d))) = length (categories d) \<and>
      (\<forall>i<length (categories d).
         categories (fst (delete_category cid d)) ! i = categories d ! i \<or>
         id_cat (categories d ! i) = cid \<and>
         categories (fst (delete_category cid d)) ! i =
           (categories d ! i)\<lparr>isActive_cat := False\<rparr>) \<and>
      (distinct (map id_cat (categories d)) \<longrightarrow>
         (\<forall>c\<in>set (get_categories (fst (delete_category cid d))). id_cat c \<noteq> cid) \<and>
         get_category cid (fst (delete_category cid d)) = None))"
proof (intro conjI impI)
  assume "\<exists>p\<in>set (products d). categoryId p = cid \<and> isActive_prod p"
  then show "\<exists>n>0. delete_category cid d = (d, Category_400_has_products n)"
    by (rule delete_category_refused)
next
  let ?off = "\<lambda>c. c\<lparr>isActive_cat := False\<rparr>"
  let ?cs' = "updateFirst (\<lambda>c. id_cat c = cid) ?off (categories d)"
  assume ok: "snd (delete_category cid d) = Category_200_deleted"
  then show run: "fst (delete_category cid d) = d\<lparr>categories := ?cs'\<rparr>"
    by (rule delete_category_done)
  show "length (categories (fst (delete_category cid d))) = length (categories d)"
    by (simp add: run length_updateFirst)
  show "\<forall>i<length (categories d).
         categories (fst (delete_category cid d)) ! i = categories d ! i \<or>
         id_cat (categories d ! i) = cid \<and>
         categories (fst (delete_category cid d)) ! i = ?off (categories d ! i)"
    using updateFirst_nth [of _ "categories d" "\<lambda>c. id_cat c = cid" ?off]
    by (simp add: run)
  from ok have found: "findOne (\<lambda>c. id_cat c = cid) (categories d) \<noteq> None"
    by (simp add: delete_category_def Let_def split: if_splits option.splits)
  {
    assume uniq: "distinct (map id_cat (categories d))"
    have off: "\<not> isActive_cat c" if "c \<in> set ?cs'" and "id_cat c = cid" for c
      using updateFirst_deactivates [OF uniq found that] .
    then show "\<forall>c\<in>set (get_categories (fst (delete_category cid d))). id_cat c \<noteq> cid"
      by (auto simp: run get_categories_def)
    from off show "get_category cid (fst (delete_category cid d)) = None"
      by (auto simp: run get_category_def findOne_def find_None_iff)
  }
qed

theorem delete_category_soft_witness:
  "delete_category 1 department = (department, Category_400_has_products 1) \<and>
   delete_category 2 department =
     (department\<lparr>categories := [gowns, caps\<lparr>isActive_cat := False\<rparr>]\<rparr>, Category_200_deleted) \<and>
   get_categories (fst (delete_category 2 department)) = [gowns] \<and>
   get_category 2 (fst (delete_category 2 department)) = None"
proof -
  have refused: "delete_category 1 department = (department, Category_400_has_products 1)"
    by (simp add: delete_category_def Let_def category_data)
  have removed: "delete_category 2 department =
     (department\<lparr>categories := [gowns, caps\<lparr>isActive_cat := False\<rparr>]\<rparr>, Category_200_deleted)"
    by (simp add: delete_category_def findOne_def Let_def category_data)
  have listed: "get_categories (fst (delete_category 2 department)) = [gowns]"
    by (simp add: removed get_categories_def gowns_def caps_def)
  have busy: "\<exists>p\<in>set (products department). categoryId p = 1 \<and> isActive_prod p"
    by (simp add: category_data)
  with delete_category_soft [of department 1]
  have "\<exists>n>0. delete_category 1 department = (department, Category_400_has_products n)"
    by blast
  have uniq: "distinct (map id_cat (categories department))"
    by (simp add: category_data)
  from removed have "snd (delete_category 2 department) = Category_200_deleted" by simp
  with delete_category_soft [of department 2] uniq
  have "get_category 2 (fst (delete_category 2 department)) = None" by blast
  with refused removed listed show ?thesis by blast
qed

end
